theory Spec2Isabelle
  imports Main
begin

section \<open>Execution configuration carried on a context (command.go)\<close>

text \<open>
  A Go \<^verbatim>\<open>context.Context\<close> is, for the functions below, a chain of key/value pairs:
  \<^verbatim>\<open>context.WithValue(parent, key, val)\<close> puts one pair in front of its parent and
  \<^verbatim>\<open>ctx.Value(key)\<close> returns the value of the nearest pair whose key is \<^verbatim>\<open>==\<close> to
  the one asked for (\<^verbatim>\<open>nil\<close> when there is none).

  Keys and values are of type \<^verbatim>\<open>any\<close>. Two interface values are equal when their dynamic
  types are identical and their dynamic values are equal, and two values of the type
  \<^verbatim>\<open>struct{}\<close> are always equal. The keys of this package are all written
  \<^verbatim>\<open>struct{}{}\<close>; \<open>EmptyStruct\<close> is that value. \<open>ForeignKey\<close> stands for any key of
  another dynamic type, as a caller of the package may use.
\<close>

datatype ctx_key = EmptyStruct | ForeignKey nat

text \<open>
  The dynamic types a stored value is asserted against: \<^verbatim>\<open>time.Duration\<close> (an int64
  count of nanoseconds), \<^verbatim>\<open>string\<close>, \<^verbatim>\<open>bool\<close> and \<^verbatim>\<open>map[string]string\<close>. A Go map
  is the list of its entries in the order \<^verbatim>\<open>range\<close> visits them (Go leaves that order
  open; the list fixes one), and \<open>None\<close> is the nil map. \<open>ForeignVal\<close> is a value of
  any other dynamic type.
\<close>

type_synonym Duration = int
type_synonym go_map = "(string \<times> string) list option"

datatype ctx_val =
    DurationVal Duration
  | StringVal string
  | BoolVal bool
  | MapVal go_map
  | ForeignVal nat

datatype "context" = Background | WithValue "context" ctx_key ctx_val

fun Value :: "context \<Rightarrow> ctx_key \<Rightarrow> ctx_val option" where
  "Value Background k = None"
| "Value (WithValue parent key val) k = (if key = k then Some val else Value parent k)"

text \<open>
  The package's process-wide variables and the signals the containerization probe reads:
  whether \<^verbatim>\<open>os.Stat\<close> of each marker file succeeds, and whether the orchestration
  variable is in the environment. \<open>detectContainerized\<close> is the \<^verbatim>\<open>sync.Once\<close>: true
  once its function has run. \<open>slog\<close> collects the messages logged.
\<close>

record process =
  stat_dockerenv :: bool
  stat_containerenv :: bool
  lookupenv_KUBERNETES_SERVICE_HOST :: bool
  stat_serviceaccount_token :: bool
  isContainerized :: bool
  detectContainerized :: bool
  DefaultWaitDelay :: Duration
  useStandardLocale :: bool
  slog :: "string list"

definition nsenter :: string where
  "nsenter = ''/usr/bin/nsenter''"

definition DefaultVolumeGroupEnv :: string where
  "DefaultVolumeGroupEnv = ''LVM_VG_NAME''"

definition waitDelayKey :: ctx_key where
  "waitDelayKey = EmptyStruct"

definition SetProcessCancelWaitDelay :: "context \<Rightarrow> Duration \<Rightarrow> context" where
  "SetProcessCancelWaitDelay ctx delay = WithValue ctx waitDelayKey (DurationVal delay)"

definition GetProcessCancelWaitDelay :: "process \<Rightarrow> context \<Rightarrow> Duration" where
  "GetProcessCancelWaitDelay p ctx =
     (case Value ctx waitDelayKey of
        Some (DurationVal delay) \<Rightarrow> delay
      | _ \<Rightarrow> DefaultWaitDelay p)"

definition defaultVolumeGroupKey :: ctx_key where
  "defaultVolumeGroupKey = EmptyStruct"

definition WithDefaultVolumeGroup :: "context \<Rightarrow> string \<Rightarrow> context" where
  "WithDefaultVolumeGroup ctx vg = WithValue ctx defaultVolumeGroupKey (StringVal vg)"

definition DefaultVolumeGroup :: "context \<Rightarrow> string" where
  "DefaultVolumeGroup ctx =
     (case Value ctx defaultVolumeGroupKey of
        Some (StringVal vg) \<Rightarrow> vg
      | _ \<Rightarrow> '''')"

text \<open>
  \<^verbatim>\<open>detectContainerized.Do(...)\<close> runs the probes on the first call only; every call
  returns the variable \<^verbatim>\<open>isContainerized\<close>. The context is used for logging alone.
\<close>

definition IsContainerized :: "context \<Rightarrow> process \<Rightarrow> bool \<times> process" where
  "IsContainerized ctx p =
     (if detectContainerized p then (isContainerized p, p)
      else
        let p1 = (if stat_dockerenv p then p\<lparr>isContainerized := True\<rparr>
                  else if stat_containerenv p then p\<lparr>isContainerized := True\<rparr>
                  else if lookupenv_KUBERNETES_SERVICE_HOST p then p\<lparr>isContainerized := True\<rparr>
                  else if stat_serviceaccount_token p then p\<lparr>isContainerized := True\<rparr>
                  else p);
            p2 = (if isContainerized p1
                  then p1\<lparr>slog := slog p1 @ [''lvm2go is running in container environment'']\<rparr>
                  else p1);
            p3 = p2\<lparr>detectContainerized := True\<rparr>
        in (isContainerized p3, p3))"

definition envContextKey :: ctx_key where
  "envContextKey = EmptyStruct"

definition forceNoNsenterKey :: ctx_key where
  "forceNoNsenterKey = EmptyStruct"

definition WithCustomEnvironment :: "context \<Rightarrow> go_map \<Rightarrow> context" where
  "WithCustomEnvironment ctx env = WithValue ctx envContextKey (MapVal env)"

definition WithForceNoNsenter :: "context \<Rightarrow> bool \<Rightarrow> context" where
  "WithForceNoNsenter ctx force = WithValue ctx forceNoNsenterKey (BoolVal force)"

definition GetCustomEnvironment :: "context \<Rightarrow> go_map" where
  "GetCustomEnvironment ctx =
     (case Value ctx envContextKey of
        Some (MapVal env) \<Rightarrow> env
      | _ \<Rightarrow> None)"

definition shouldForceNoNsenter :: "context \<Rightarrow> bool" where
  "shouldForceNoNsenter ctx =
     (case Value ctx forceNoNsenterKey of
        Some (BoolVal force) \<Rightarrow> force
      | _ \<Rightarrow> False)"

text \<open>Go's \<^verbatim>\<open>&&\<close> evaluates \<^verbatim>\<open>IsContainerized\<close> first, so the detection always runs.\<close>

definition WillUseNsenter :: "context \<Rightarrow> process \<Rightarrow> bool \<times> process" where
  "WillUseNsenter ctx p =
     (let (containerized, p') = IsContainerized ctx p
      in (containerized \<and> \<not> shouldForceNoNsenter ctx, p'))"

definition UseStandardLocale :: "process \<Rightarrow> bool" where
  "UseStandardLocale p = useStandardLocale p"

definition SetUseStandardLocale :: "bool \<Rightarrow> process \<Rightarrow> process" where
  "SetUseStandardLocale use p = p\<lparr>useStandardLocale := use\<rparr>"

section \<open>The command descriptor\<close>

text \<open>
  The fields of \<^verbatim>\<open>exec.Cmd\<close> this package sets. \<^verbatim>\<open>exec.CommandContext(ctx, name, arg...)\<close>
  of the standard library stores \<open>name\<close> as \<open>Path\<close> and \<open>name\<close> followed by \<open>arg\<close> as
  \<open>Args\<close>: \<open>Args\<close> is the whole argv, its head the program's name, its tail the
  arguments the program is given. (Resolving a bare name along PATH is the operating
  system's and is left out: \<open>Path\<close> is the name as the package gave it.) \<open>Env\<close> starts as
  the nil slice, here \<open>[]\<close>; the package only appends to it, so a non-nil empty slice
  never arises.
\<close>

record Cmd =
  Path :: string
  Args :: "string list"
  Env :: "string list"
  WaitDelay :: Duration

definition exec_CommandContext :: "string \<Rightarrow> string list \<Rightarrow> Cmd" where
  "exec_CommandContext name arg = \<lparr>Path = name, Args = name # arg, Env = [], WaitDelay = 0\<rparr>"

text \<open>The \<^verbatim>\<open>range\<close> loop over the custom environment: one \<^verbatim>\<open>k+"="+v\<close> appended per entry.\<close>

fun appendEntries :: "(string \<times> string) list \<Rightarrow> Cmd \<Rightarrow> Cmd" where
  "appendEntries [] cmd = cmd"
| "appendEntries ((k, v) # rest) cmd = appendEntries rest (cmd\<lparr>Env := Env cmd @ [k @ ''='' @ v]\<rparr>)"

definition CommandWithCustomEnvironment :: "process \<Rightarrow> context \<Rightarrow> Cmd \<Rightarrow> Cmd" where
  "CommandWithCustomEnvironment p ctx cmd =
     (let cmd1 = (if UseStandardLocale p then cmd\<lparr>Env := Env cmd @ [''LC_ALL=C'']\<rparr> else cmd)
      in case GetCustomEnvironment ctx of
           None \<Rightarrow> cmd1
         | Some env \<Rightarrow> appendEntries env cmd1)"

definition CommandContext :: "process \<Rightarrow> context \<Rightarrow> string \<Rightarrow> string list \<Rightarrow> Cmd \<times> process" where
  "CommandContext p ctx cmd args =
     (let (containerized, p') = IsContainerized ctx p;
          c = (if containerized \<and> \<not> shouldForceNoNsenter ctx
               then exec_CommandContext nsenter
                      ([''-m'', ''-u'', ''-i'', ''-n'', ''-p'', ''-t'', ''1'', cmd] @ args)
               else exec_CommandContext cmd args);
          c1 = c\<lparr>WaitDelay := GetProcessCancelWaitDelay p' ctx\<rparr>;
          c2 = (if DefaultVolumeGroup ctx \<noteq> ''''
                then c1\<lparr>Env := Env c1 @ [DefaultVolumeGroupEnv @ ''='' @ DefaultVolumeGroup ctx]\<rparr>
                else c1)
      in (CommandWithCustomEnvironment p' ctx c2, p'))"

text \<open>
  What the operating system hands to the started program, after the documentation of
  \<^verbatim>\<open>exec.Cmd.Env\<close> in the standard library: ``If Env is nil, the new process uses the
  current process's environment. If Env contains duplicate environment keys, only the last
  value in the slice for each duplicate key is used.'' \<open>os_Environ\<close> is the environment of
  the calling process; an entry is \<^verbatim>\<open>key=value\<close>, the key ending at the first \<^verbatim>\<open>=\<close>.
\<close>

definition Cmd_Environ :: "string list \<Rightarrow> Cmd \<Rightarrow> string list" where
  "Cmd_Environ os_Environ c = (if Env c = [] then os_Environ else Env c)"

definition entry_key :: "string \<Rightarrow> string" where
  "entry_key e = takeWhile (\<lambda>ch. ch \<noteq> CHR ''='') e"

definition entry_value :: "string \<Rightarrow> string" where
  "entry_value e = drop (Suc (length (entry_key e))) e"

fun lookup_entry :: "string list \<Rightarrow> string \<Rightarrow> string option" where
  "lookup_entry [] k = None"
| "lookup_entry (e # es) k =
     (case lookup_entry es k of
        Some v \<Rightarrow> Some v
      | None \<Rightarrow> (if entry_key e = k then Some (entry_value e) else None))"

section \<open>Argument lists and options (options.go, vgreduce.go)\<close>

datatype error = Error string

text \<open>
  Modelled from the spec: the \<^verbatim>\<open>Arguments\<close> type (\<^verbatim>\<open>NewArgs\<close>, \<^verbatim>\<open>AddOrReplace\<close>,
  \<^verbatim>\<open>GetRaw\<close>) is declared elsewhere in the package, outside the sources modelled here.
  The spec has it as ``an ordered sequence of string tokens'' with ``add-or-replace (remove
  prior occurrences of a flag, then append)''. \<open>ArgsTypeGeneric\<close> is the kind of list
  that \<^verbatim>\<open>AsArgs\<close> of the vgreduce options creates.
\<close>

datatype ArgsType = ArgsTypeGeneric

record Arguments =
  argsType :: ArgsType
  raw :: "string list"

definition NewArgs :: "ArgsType \<Rightarrow> Arguments" where
  "NewArgs t = \<lparr>argsType = t, raw = []\<rparr>"

definition AddOrReplace :: "string \<Rightarrow> Arguments \<Rightarrow> Arguments" where
  "AddOrReplace flag args = args\<lparr>raw := filter (\<lambda>tok. tok \<noteq> flag) (raw args) @ [flag]\<rparr>"

definition GetRaw :: "Arguments \<Rightarrow> string list" where
  "GetRaw args = raw args"

text \<open>
  An \<^verbatim>\<open>Argument\<close> is a value with a method \<^verbatim>\<open>ApplyToArgs(args Arguments) error\<close>,
  which changes the list it is given and returns an error or nil: here it maps the list
  to the changed list and the error (\<open>None\<close> is nil).
\<close>

type_synonym Argument = "Arguments \<Rightarrow> Arguments \<times> error option"

definition RequestConfirm_ApplyToArgs :: "bool \<Rightarrow> Argument" where
  "RequestConfirm_ApplyToArgs opt args =
     (if \<not> opt then (AddOrReplace ''--yes'' args, None) else (args, None))"

definition Verbose_ApplyToArgs :: "bool \<Rightarrow> Argument" where
  "Verbose_ApplyToArgs opt args =
     (if opt then (AddOrReplace ''--verbose'' args, None) else (args, None))"

text \<open>
  The option types \<^verbatim>\<open>Devices\<close>, \<^verbatim>\<open>DevicesFile\<close>, \<^verbatim>\<open>Profile\<close>, \<^verbatim>\<open>VolumeGroupName\<close>,
  \<^verbatim>\<open>PhysicalVolumeNames\<close>, \<^verbatim>\<open>RemoveMissing\<close> and \<^verbatim>\<open>Force\<close> are declared
  elsewhere in the package. Their values are what their uses show (strings, lists of strings,
  booleans); their \<^verbatim>\<open>ApplyToArgs\<close> methods are parameters of the model, collected in the
  record \<open>field_methods\<close>. Each method sees the value of its own field and the list, and
  nothing else.
\<close>

type_synonym Devices = "string list"
type_synonym DevicesFile = string
type_synonym Profile = string
type_synonym VolumeGroupName = string
type_synonym PhysicalVolumeNames = "string list"

record field_methods =
  Devices_ApplyToArgs :: "Devices \<Rightarrow> Argument"
  DevicesFile_ApplyToArgs :: "DevicesFile \<Rightarrow> Argument"
  RemoveMissing_ApplyToArgs :: "bool \<Rightarrow> Argument"
  VolumeGroupName_ApplyToArgs :: "VolumeGroupName \<Rightarrow> Argument"
  PhysicalVolumeNames_ApplyToArgs :: "PhysicalVolumeNames \<Rightarrow> Argument"
  Force_ApplyToArgs :: "bool \<Rightarrow> Argument"

text \<open>
  The loop \<^verbatim>\<open>for _, arg := range []Argument{...}\<close> of both \<^verbatim>\<open>ApplyToArgs\<close> methods:
  it returns at the first error.
\<close>

fun applyInOrder :: "Argument list \<Rightarrow> Argument" where
  "applyInOrder [] args = (args, None)"
| "applyInOrder (arg # rest) args =
     (case arg args of
        (args', Some err) \<Rightarrow> (args', Some err)
      | (args', None) \<Rightarrow> applyInOrder rest args')"

record CommonOptions =
  Devices :: Devices
  DevicesFile :: DevicesFile
  Profile :: Profile
  Verbose :: bool
  RequestConfirm :: bool

definition CommonOptions_ApplyToArgs :: "field_methods \<Rightarrow> CommonOptions \<Rightarrow> Argument" where
  "CommonOptions_ApplyToArgs M opts args =
     applyInOrder
       [Devices_ApplyToArgs M (Devices opts),
        DevicesFile_ApplyToArgs M (DevicesFile opts),
        Verbose_ApplyToArgs (Verbose opts),
        RequestConfirm_ApplyToArgs (RequestConfirm opts)]
       args"

record VGReduceOptions =
  VolumeGroupName :: VolumeGroupName
  PhysicalVolumeNames :: PhysicalVolumeNames
  RemoveMissing :: bool
  Force :: bool
  CommonOptions :: CommonOptions

text \<open>The zero value \<^verbatim>\<open>VGReduceOptions{}\<close>.\<close>

definition VGReduceOptions_zero :: VGReduceOptions where
  "VGReduceOptions_zero =
     \<lparr>VolumeGroupName = '''', PhysicalVolumeNames = [], RemoveMissing = False, Force = False,
      CommonOptions = \<lparr>Devices = [], DevicesFile = '''', Profile = '''', Verbose = False,
                       RequestConfirm = False\<rparr>\<rparr>"

definition VGReduceOptions_ApplyToArgs :: "field_methods \<Rightarrow> VGReduceOptions \<Rightarrow> Argument" where
  "VGReduceOptions_ApplyToArgs M opts args =
     (if VolumeGroupName opts = ''''
      then (args, Some (Error ''VolumeGroupName is required for extension of a volume group''))
      else if length (PhysicalVolumeNames opts) = 0 \<and> \<not> RemoveMissing opts
      then (args, Some (Error
              ''at least one PhysicalVolumeName is required for reduction of a volume group''))
      else applyInOrder
             [RemoveMissing_ApplyToArgs M (RemoveMissing opts),
              VolumeGroupName_ApplyToArgs M (VolumeGroupName opts),
              PhysicalVolumeNames_ApplyToArgs M (PhysicalVolumeNames opts),
              Force_ApplyToArgs M (Force opts),
              CommonOptions_ApplyToArgs M (CommonOptions opts)]
             args)"

text \<open>
  A \<^verbatim>\<open>VGReduceOption\<close> is any value with a method
  \<^verbatim>\<open>ApplyToVGReduceOptions(opts *VGReduceOptions)\<close>. The one implementation in
  vgreduce.go is that of \<^verbatim>\<open>*VGReduceOptions\<close> itself (\<open>OptionsStruct\<close>, the struct a non-nil
  pointer points to). An option of a type declared elsewhere is \<open>OtherOption\<close>, given by
  what its method does to the struct.
\<close>

datatype VGReduceOption =
    OptionsStruct VGReduceOptions
  | OtherOption "VGReduceOptions \<Rightarrow> VGReduceOptions"

definition VGReduceOptions_ApplyToVGReduceOptions ::
    "VGReduceOptions \<Rightarrow> VGReduceOptions \<Rightarrow> VGReduceOptions" where
  "VGReduceOptions_ApplyToVGReduceOptions opts new = opts"

fun ApplyToVGReduceOptions :: "VGReduceOption \<Rightarrow> VGReduceOptions \<Rightarrow> VGReduceOptions" where
  "ApplyToVGReduceOptions (OptionsStruct opts) new = VGReduceOptions_ApplyToVGReduceOptions opts new"
| "ApplyToVGReduceOptions (OtherOption change) new = change new"

text \<open>The loop \<^verbatim>\<open>for _, opt := range list\<close> of \<^verbatim>\<open>AsArgs\<close>.\<close>

fun applyOptions :: "VGReduceOption list \<Rightarrow> VGReduceOptions \<Rightarrow> VGReduceOptions" where
  "applyOptions [] options = options"
| "applyOptions (opt # rest) options = applyOptions rest (ApplyToVGReduceOptions opt options)"

text \<open>
  \<^verbatim>\<open>AsArgs\<close> returns the pair \<^verbatim>\<open>(Arguments, error)\<close>: \<open>(None, Some err)\<close> is
  \<^verbatim>\<open>return nil, err\<close> and \<open>(Some args, None)\<close> is \<^verbatim>\<open>return args, nil\<close>.
\<close>

definition VGReduceOptionsList_AsArgs ::
    "field_methods \<Rightarrow> VGReduceOption list \<Rightarrow> Arguments option \<times> error option" where
  "VGReduceOptionsList_AsArgs M list =
     (let args = NewArgs ArgsTypeGeneric;
          options = applyOptions list VGReduceOptions_zero
      in case VGReduceOptions_ApplyToArgs M options args of
           (args', Some err) \<Rightarrow> (None, Some err)
         | (args', None) \<Rightarrow> (Some args', None))"

section \<open>The client decorator that bypasses nsenter (client_no_nsenter.go)\<close>

text \<open>
  The methods of the \<^verbatim>\<open>Client\<close> interface, as \<^verbatim>\<open>noNsenterClient\<close> implements them. A
  client maps a method, a context and the other arguments of the call to the returned
  values (the error among them), acting on a state of the world \<open>'s\<close>. The types of the
  arguments \<open>'a\<close> and of the results \<open>'r\<close> are those of the interface, which is declared
  elsewhere in the package.
\<close>

datatype client_method =
    Version
  | RawConfig
  | ReadAndDecodeConfig
  | WriteAndEncodeConfig
  | UpdateGlobalConfig
  | UpdateLocalConfig
  | UpdateProfileConfig
  | CreateProfile
  | RemoveProfile
  | GetProfilePath
  | GetProfileDirectory
  | VG
  | VGs
  | VGCreate
  | VGRemove
  | VGExtend
  | VGReduce
  | VGRename
  | VGChange
  | LV
  | LVs
  | LVCreate
  | LVRemove
  | LVResize
  | LVExtend
  | LVReduce
  | LVRename
  | LVChange
  | PVs
  | PVCreate
  | PVRemove
  | PVResize
  | PVChange
  | PVMove
  | DevList
  | DevCheck
  | DevUpdate
  | DevModify

type_synonym ('a, 'r, 's) Client = "client_method \<Rightarrow> context \<Rightarrow> 'a \<Rightarrow> 's \<Rightarrow> 'r \<times> 's"

record ('a, 'r, 's) noNsenterClient =
  client :: "('a, 'r, 's) Client"

definition applyNoNsenter :: "('a, 'r, 's) noNsenterClient \<Rightarrow> context \<Rightarrow> context" where
  "applyNoNsenter c ctx = WithForceNoNsenter ctx True"

fun noNsenterClient_call :: "('a, 'r, 's) noNsenterClient \<Rightarrow> ('a, 'r, 's) Client" where
  "noNsenterClient_call c Version ctx args = client c Version (applyNoNsenter c ctx) args"
| "noNsenterClient_call c RawConfig ctx args = client c RawConfig (applyNoNsenter c ctx) args"
| "noNsenterClient_call c ReadAndDecodeConfig ctx args = client c ReadAndDecodeConfig (applyNoNsenter c ctx) args"
| "noNsenterClient_call c WriteAndEncodeConfig ctx args = client c WriteAndEncodeConfig (applyNoNsenter c ctx) args"
| "noNsenterClient_call c UpdateGlobalConfig ctx args = client c UpdateGlobalConfig (applyNoNsenter c ctx) args"
| "noNsenterClient_call c UpdateLocalConfig ctx args = client c UpdateLocalConfig (applyNoNsenter c ctx) args"
| "noNsenterClient_call c UpdateProfileConfig ctx args = client c UpdateProfileConfig (applyNoNsenter c ctx) args"
| "noNsenterClient_call c CreateProfile ctx args = client c CreateProfile (applyNoNsenter c ctx) args"
| "noNsenterClient_call c RemoveProfile ctx args = client c RemoveProfile (applyNoNsenter c ctx) args"
| "noNsenterClient_call c GetProfilePath ctx args = client c GetProfilePath (applyNoNsenter c ctx) args"
| "noNsenterClient_call c GetProfileDirectory ctx args = client c GetProfileDirectory (applyNoNsenter c ctx) args"
| "noNsenterClient_call c VG ctx args = client c VG (applyNoNsenter c ctx) args"
| "noNsenterClient_call c VGs ctx args = client c VGs (applyNoNsenter c ctx) args"
| "noNsenterClient_call c VGCreate ctx args = client c VGCreate (applyNoNsenter c ctx) args"
| "noNsenterClient_call c VGRemove ctx args = client c VGRemove (applyNoNsenter c ctx) args"
| "noNsenterClient_call c VGExtend ctx args = client c VGExtend (applyNoNsenter c ctx) args"
| "noNsenterClient_call c VGReduce ctx args = client c VGReduce (applyNoNsenter c ctx) args"
| "noNsenterClient_call c VGRename ctx args = client c VGRename (applyNoNsenter c ctx) args"
| "noNsenterClient_call c VGChange ctx args = client c VGChange (applyNoNsenter c ctx) args"
| "noNsenterClient_call c LV ctx args = client c LV (applyNoNsenter c ctx) args"
| "noNsenterClient_call c LVs ctx args = client c LVs (applyNoNsenter c ctx) args"
| "noNsenterClient_call c LVCreate ctx args = client c LVCreate (applyNoNsenter c ctx) args"
| "noNsenterClient_call c LVRemove ctx args = client c LVRemove (applyNoNsenter c ctx) args"
| "noNsenterClient_call c LVResize ctx args = client c LVResize (applyNoNsenter c ctx) args"
| "noNsenterClient_call c LVExtend ctx args = client c LVExtend (applyNoNsenter c ctx) args"
| "noNsenterClient_call c LVReduce ctx args = client c LVReduce (applyNoNsenter c ctx) args"
| "noNsenterClient_call c LVRename ctx args = client c LVRename (applyNoNsenter c ctx) args"
| "noNsenterClient_call c LVChange ctx args = client c LVChange (applyNoNsenter c ctx) args"
| "noNsenterClient_call c PVs ctx args = client c PVs (applyNoNsenter c ctx) args"
| "noNsenterClient_call c PVCreate ctx args = client c PVCreate (applyNoNsenter c ctx) args"
| "noNsenterClient_call c PVRemove ctx args = client c PVRemove (applyNoNsenter c ctx) args"
| "noNsenterClient_call c PVResize ctx args = client c PVResize (applyNoNsenter c ctx) args"
| "noNsenterClient_call c PVChange ctx args = client c PVChange (applyNoNsenter c ctx) args"
| "noNsenterClient_call c PVMove ctx args = client c PVMove (applyNoNsenter c ctx) args"
| "noNsenterClient_call c DevList ctx args = client c DevList (applyNoNsenter c ctx) args"
| "noNsenterClient_call c DevCheck ctx args = client c DevCheck (applyNoNsenter c ctx) args"
| "noNsenterClient_call c DevUpdate ctx args = client c DevUpdate (applyNoNsenter c ctx) args"
| "noNsenterClient_call c DevModify ctx args = client c DevModify (applyNoNsenter c ctx) args"

section \<open>Example values\<close>

text \<open>
  Two states of the process before the first detection: on a host none of the four
  signals is present, in a container the marker file \<^verbatim>\<open>/.dockerenv\<close> exists.
\<close>

definition host_process :: process where
  "host_process =
     \<lparr>stat_dockerenv = False, stat_containerenv = False,
      lookupenv_KUBERNETES_SERVICE_HOST = False, stat_serviceaccount_token = False,
      isContainerized = False, detectContainerized = False, DefaultWaitDelay = 0,
      useStandardLocale = False, slog = []\<rparr>"

definition container_process :: process where
  "container_process = host_process\<lparr>stat_dockerenv := True\<rparr>"

text \<open>
  Stand-ins for the \<^verbatim>\<open>ApplyToArgs\<close> methods of the field types declared elsewhere, to
  run the model on concrete inputs: each appends the value of its field as it stands, a
  boolean as a flag when it is true. None of them fails.
\<close>

definition example_methods :: field_methods where
  "example_methods =
     \<lparr>Devices_ApplyToArgs = (\<lambda>devs args. (args\<lparr>raw := raw args @ devs\<rparr>, None)),
      DevicesFile_ApplyToArgs =
        (\<lambda>file args. (if file = [] then args else args\<lparr>raw := raw args @ [file]\<rparr>, None)),
      RemoveMissing_ApplyToArgs =
        (\<lambda>b args. (if b then AddOrReplace ''--removemissing'' args else args, None)),
      VolumeGroupName_ApplyToArgs = (\<lambda>vg args. (args\<lparr>raw := raw args @ [vg]\<rparr>, None)),
      PhysicalVolumeNames_ApplyToArgs = (\<lambda>pvs args. (args\<lparr>raw := raw args @ pvs\<rparr>, None)),
      Force_ApplyToArgs = (\<lambda>b args. (if b then AddOrReplace ''--force'' args else args, None))\<rparr>"

definition example_options :: VGReduceOptions where
  "example_options =
     VGReduceOptions_zero\<lparr>VolumeGroupName := ''vg0'', PhysicalVolumeNames := [''/dev/sda''],
                           Force := True\<rparr>"

text \<open>
  A client that answers every method with whether the context it is given has the bypass
  flag set, and counts the calls it receives.
\<close>

definition probe_client :: "(unit, bool, nat) Client" where
  "probe_client m ctx args calls = (shouldForceNoNsenter ctx, Suc calls)"

section \<open>Facts about the context and the command builder\<close>

lemmas ctx_key_defs =
  waitDelayKey_def defaultVolumeGroupKey_def envContextKey_def forceNoNsenterKey_def

lemmas ctx_setter_defs =
  SetProcessCancelWaitDelay_def WithDefaultVolumeGroup_def WithCustomEnvironment_def
  WithForceNoNsenter_def

lemmas ctx_getter_defs =
  GetProcessCancelWaitDelay_def DefaultVolumeGroup_def GetCustomEnvironment_def
  shouldForceNoNsenter_def

lemma shouldForceNoNsenter_WithForceNoNsenter [simp]:
  "shouldForceNoNsenter (WithForceNoNsenter ctx force) = force"
  by (simp add: shouldForceNoNsenter_def WithForceNoNsenter_def)

lemma fst_IsContainerized:
  "fst (IsContainerized ctx p) =
     (if detectContainerized p then isContainerized p
      else (isContainerized p \<or> stat_dockerenv p \<or> stat_containerenv p \<or>
            lookupenv_KUBERNETES_SERVICE_HOST p \<or> stat_serviceaccount_token p))"
  by (simp add: IsContainerized_def Let_def)

lemma IsContainerized_keeps_globals:
  "useStandardLocale (snd (IsContainerized ctx p)) = useStandardLocale p"
  "DefaultWaitDelay (snd (IsContainerized ctx p)) = DefaultWaitDelay p"
  by (simp_all add: IsContainerized_def Let_def)

text \<open>The detection is computed once: a second call returns the first call's answer.\<close>

lemma IsContainerized_memoized:
  "IsContainerized ctx' (snd (IsContainerized ctx p)) =
     (fst (IsContainerized ctx p), snd (IsContainerized ctx p))"
  by (simp add: IsContainerized_def Let_def)

lemma appendEntries_fields [simp]:
  "Path (appendEntries es c) = Path c"
  "Args (appendEntries es c) = Args c"
  "WaitDelay (appendEntries es c) = WaitDelay c"
  by (induction es c rule: appendEntries.induct) simp_all

lemma Env_appendEntries:
  "Env (appendEntries es c) = Env c @ map (\<lambda>(k, v). k @ ''='' @ v) es"
  by (induction es c rule: appendEntries.induct) simp_all

lemma CommandWithCustomEnvironment_fields [simp]:
  "Path (CommandWithCustomEnvironment p ctx c) = Path c"
  "Args (CommandWithCustomEnvironment p ctx c) = Args c"
  "WaitDelay (CommandWithCustomEnvironment p ctx c) = WaitDelay c"
  by (simp_all add: CommandWithCustomEnvironment_def Let_def split: option.splits)

lemma Env_CommandWithCustomEnvironment:
  "Env (CommandWithCustomEnvironment p ctx c) =
     Env c @ (if UseStandardLocale p then [''LC_ALL=C''] else [])
           @ (case GetCustomEnvironment ctx of
                None \<Rightarrow> []
              | Some env \<Rightarrow> map (\<lambda>(k, v). k @ ''='' @ v) env)"
  by (simp add: CommandWithCustomEnvironment_def Let_def Env_appendEntries split: option.splits)

lemma Env_CommandContext:
  "Env (fst (CommandContext p ctx cmd args)) =
     (if DefaultVolumeGroup ctx \<noteq> '''' then [''LVM_VG_NAME='' @ DefaultVolumeGroup ctx] else [])
     @ (if UseStandardLocale p then [''LC_ALL=C''] else [])
     @ (case GetCustomEnvironment ctx of
          None \<Rightarrow> []
        | Some env \<Rightarrow> map (\<lambda>(k, v). k @ ''='' @ v) env)"
  by (simp add: CommandContext_def split_beta Let_def Env_CommandWithCustomEnvironment
      exec_CommandContext_def DefaultVolumeGroupEnv_def UseStandardLocale_def
      IsContainerized_keeps_globals)

lemma WaitDelay_CommandContext:
  "WaitDelay (fst (CommandContext p ctx cmd args)) = GetProcessCancelWaitDelay p ctx"
  by (simp add: CommandContext_def split_beta Let_def GetProcessCancelWaitDelay_def
      IsContainerized_keeps_globals split: option.splits ctx_val.splits)

text \<open>
  Every setter stores under the one key \<open>EmptyStruct\<close>, so a getter sees the value of
  the last setter applied, whatever its field, and falls back to its default when that
  value is of another type.
\<close>

lemma setter_hides_other_fields:
  "GetProcessCancelWaitDelay p (WithDefaultVolumeGroup ctx vg) = DefaultWaitDelay p"
  "GetProcessCancelWaitDelay p (WithCustomEnvironment ctx env) = DefaultWaitDelay p"
  "GetProcessCancelWaitDelay p (WithForceNoNsenter ctx force) = DefaultWaitDelay p"
  "DefaultVolumeGroup (SetProcessCancelWaitDelay ctx d) = ''''"
  "DefaultVolumeGroup (WithCustomEnvironment ctx env) = ''''"
  "DefaultVolumeGroup (WithForceNoNsenter ctx force) = ''''"
  "GetCustomEnvironment (SetProcessCancelWaitDelay ctx d) = None"
  "GetCustomEnvironment (WithDefaultVolumeGroup ctx vg) = None"
  "GetCustomEnvironment (WithForceNoNsenter ctx force) = None"
  "shouldForceNoNsenter (SetProcessCancelWaitDelay ctx d) = False"
  "shouldForceNoNsenter (WithDefaultVolumeGroup ctx vg) = False"
  "shouldForceNoNsenter (WithCustomEnvironment ctx env) = False"
  by (simp_all add: ctx_key_defs ctx_setter_defs ctx_getter_defs)

lemma getter_after_own_setter:
  "GetProcessCancelWaitDelay p (SetProcessCancelWaitDelay ctx d) = d"
  "DefaultVolumeGroup (WithDefaultVolumeGroup ctx vg) = vg"
  "GetCustomEnvironment (WithCustomEnvironment ctx env) = env"
  "shouldForceNoNsenter (WithForceNoNsenter ctx force) = force"
  by (simp_all add: ctx_key_defs ctx_setter_defs ctx_getter_defs)

section \<open>Facts about environment entries\<close>

lemma entry_key_of_pair:
  assumes "CHR ''='' \<notin> set k"
  shows "entry_key (k @ CHR ''='' # v) = k"
proof -
  from assms have "\<And>ch. ch \<in> set k \<Longrightarrow> ch \<noteq> CHR ''=''" by auto
  then have "takeWhile (\<lambda>ch. ch \<noteq> CHR ''='') (k @ CHR ''='' # v)
               = k @ takeWhile (\<lambda>ch. ch \<noteq> CHR ''='') (CHR ''='' # v)"
    by (rule takeWhile_append2)
  then show ?thesis by (simp add: entry_key_def)
qed

lemma entry_value_of_pair:
  "CHR ''='' \<notin> set k \<Longrightarrow> entry_value (k @ CHR ''='' # v) = v"
  by (simp add: entry_value_def entry_key_of_pair)

lemma lookup_entry_append:
  "lookup_entry (xs @ ys) k =
     (case lookup_entry ys k of Some v \<Rightarrow> Some v | None \<Rightarrow> lookup_entry xs k)"
  by (induction xs) (auto split: option.splits)

lemma lookup_entry_absent:
  assumes "\<forall>k' \<in> fst ` set env. CHR ''='' \<notin> set k'" and "k \<notin> fst ` set env"
  shows "lookup_entry (map (\<lambda>(k, v). k @ ''='' @ v) env) k = None"
  using assms
proof (induction env)
  case Nil
  show ?case by simp
next
  case (Cons e env)
  obtain k1 v1 where e: "e = (k1, v1)" by (cases e)
  from Cons.prems e have "CHR ''='' \<notin> set k1" and "k1 \<noteq> k" by auto
  moreover from Cons have "lookup_entry (map (\<lambda>(k, v). k @ ''='' @ v) env) k = None" by simp
  ultimately show ?case using e by (simp add: entry_key_of_pair)
qed

lemma lookup_entry_present:
  assumes "\<forall>k' \<in> fst ` set env. CHR ''='' \<notin> set k'" and "distinct (map fst env)"
    and "(k, v) \<in> set env"
  shows "lookup_entry (map (\<lambda>(k, v). k @ ''='' @ v) env) k = Some v"
  using assms
proof (induction env)
  case Nil
  then show ?case by simp
next
  case (Cons e env)
  obtain k1 v1 where e: "e = (k1, v1)" by (cases e)
  show ?case
  proof (cases "(k, v) \<in> set env")
    case True
    with Cons have "lookup_entry (map (\<lambda>(k, v). k @ ''='' @ v) env) k = Some v" by simp
    then show ?thesis by simp
  next
    case False
    with Cons.prems e have same: "k1 = k" "v1 = v" by auto
    with Cons.prems e have "k \<notin> fst ` set env" by auto
    with Cons.prems have "lookup_entry (map (\<lambda>(k, v). k @ ''='' @ v) env) k = None"
      by (intro lookup_entry_absent) auto
    moreover from Cons.prems e same have "CHR ''='' \<notin> set k" by auto
    ultimately show ?thesis using e same
      by (simp add: entry_key_of_pair entry_value_of_pair)
  qed
qed

section \<open>The command builder and the namespace bridge\<close>



section \<open>Independence of the configuration fields\<close>

text \<open>
  C2. The claim is that the setter of one field leaves the getter of every other field
  unchanged, for example that the wait delay set on a context is still read after a default
  volume group is set on top of it. The code stores all four fields under keys that are
  equal, so it is not so: at the context \<^verbatim>\<open>WithDefaultVolumeGroup(SetProcessCancelWaitDelay(
  Background, 5s), "vg0")\<close> the wait delay read is the process default (zero), not 5s, and
  likewise the volume group, the custom environment and the bypass flag are lost under a
  later setter of another field.
\<close>

theorem setters_clobber_other_fields:
  "GetProcessCancelWaitDelay host_process
     (WithDefaultVolumeGroup (SetProcessCancelWaitDelay Background 5000000000) ''vg0'') = 0
   \<and> DefaultVolumeGroup (WithForceNoNsenter (WithDefaultVolumeGroup Background ''vg0'') True) = ''''
   \<and> shouldForceNoNsenter
       (WithCustomEnvironment (WithForceNoNsenter Background True) (Some [(''A'', ''b'')])) = False
   \<and> GetCustomEnvironment
       (SetProcessCancelWaitDelay (WithCustomEnvironment Background (Some [(''A'', ''b'')]))
          5000000000) = None"
  by (simp add: ctx_key_defs ctx_setter_defs ctx_getter_defs host_process_def)

section \<open>The predicate that tells whether nsenter will be used\<close>

text \<open>
  C3. For every context and process state, \<^verbatim>\<open>WillUseNsenter\<close> returns what
  \<^verbatim>\<open>IsContainerized\<close> returns, and not \<^verbatim>\<open>shouldForceNoNsenter\<close>; on a context with the
  bypass flag forced to true it returns false, whatever the containerization state.
\<close>

theorem WillUseNsenter_eq:
  "fst (WillUseNsenter c p) = (fst (IsContainerized c p) \<and> \<not> shouldForceNoNsenter c)
   \<and> fst (WillUseNsenter (WithForceNoNsenter c True) p) = False"
  by (simp add: WillUseNsenter_def split_beta)

theorem WillUseNsenter_eq_witness:
  "fst (WillUseNsenter Background container_process) = True
   \<and> fst (WillUseNsenter Background host_process) = False
   \<and> fst (WillUseNsenter (WithForceNoNsenter Background True) container_process) = False"
  using WillUseNsenter_eq [of Background container_process]
    WillUseNsenter_eq [of Background host_process]
  by (simp add: fst_IsContainerized host_process_def container_process_def
      shouldForceNoNsenter_def WithForceNoNsenter_def forceNoNsenterKey_def)

section \<open>Facts about the option loops\<close>

lemma applyOptions_append:
  "applyOptions (xs @ ys) options = applyOptions ys (applyOptions xs options)"
  by (induction xs arbitrary: options) simp_all


lemma applyInOrder_last_succeeds:
  "applyInOrder (methods @ [m]) args = (args', None) \<Longrightarrow> \<exists>before. m before = (args', None)"
proof (induction methods arbitrary: args)
  case Nil
  then show ?case by (auto split: prod.splits option.splits)
next
  case (Cons m' methods)
  then show ?case by (auto split: prod.splits option.splits)
qed

lemma yes_in_AddOrReplace: "''--yes'' \<in> set (raw (AddOrReplace ''--yes'' args))"
  by (simp add: AddOrReplace_def)

lemma CommonOptions_success_has_yes:
  assumes "CommonOptions_ApplyToArgs M opts args = (args', None)" and "\<not> RequestConfirm opts"
  shows "''--yes'' \<in> set (raw args')"
proof -
  from assms(1) have "applyInOrder
       ([Devices_ApplyToArgs M (Devices opts), DevicesFile_ApplyToArgs M (DevicesFile opts),
         Verbose_ApplyToArgs (Verbose opts)] @ [RequestConfirm_ApplyToArgs (RequestConfirm opts)])
       args = (args', None)"
    by (simp add: CommonOptions_ApplyToArgs_def)
  then obtain before where "RequestConfirm_ApplyToArgs (RequestConfirm opts) before = (args', None)"
    by (blast dest: applyInOrder_last_succeeds)
  with assms(2) have "args' = AddOrReplace ''--yes'' before"
    by (simp add: RequestConfirm_ApplyToArgs_def)
  then show ?thesis by (simp add: yes_in_AddOrReplace)
qed

lemma VGReduceOptions_success_has_yes:
  assumes "VGReduceOptions_ApplyToArgs M opts args = (args', None)"
    and "\<not> RequestConfirm (CommonOptions opts)"
  shows "''--yes'' \<in> set (raw args')"
proof -
  from assms(1) have "applyInOrder
       ([RemoveMissing_ApplyToArgs M (RemoveMissing opts),
         VolumeGroupName_ApplyToArgs M (VolumeGroupName opts),
         PhysicalVolumeNames_ApplyToArgs M (PhysicalVolumeNames opts),
         Force_ApplyToArgs M (Force opts)] @ [CommonOptions_ApplyToArgs M (CommonOptions opts)])
       args = (args', None)"
    by (simp add: VGReduceOptions_ApplyToArgs_def split: if_splits)
  then obtain before where "CommonOptions_ApplyToArgs M (CommonOptions opts) before = (args', None)"
    by (blast dest: applyInOrder_last_succeeds)
  from this assms(2) show ?thesis by (rule CommonOptions_success_has_yes)
qed

text \<open>When no method fails, the loop is the composition of the methods from left to right.\<close>

lemma applyInOrder_all_succeed:
  "(\<And>m a. m \<in> set methods \<Longrightarrow> snd (m a) = None) \<Longrightarrow>
   applyInOrder methods args = (foldl (\<lambda>a m. fst (m a)) args methods, None)"
proof (induction methods arbitrary: args)
  case Nil
  show ?case by simp
next
  case (Cons m methods)
  have "snd (m args) = None" using Cons.prems by simp
  then obtain a1 where m: "m args = (a1, None)" by (cases "m args") simp
  have "applyInOrder methods a1 = (foldl (\<lambda>a m. fst (m a)) a1 methods, None)"
    using Cons.prems by (intro Cons.IH) simp
  with m show ?case by simp
qed

section \<open>The decorator\<close>

text \<open>
  C4. For every wrapped client, method, context, arguments and state of the world, calling
  the method on the decorator returns exactly what the wrapped client's method returns on
  the context \<^verbatim>\<open>WithForceNoNsenter(ctx, true)\<close> with the same arguments, values and error
  alike, and leaves the world as that call leaves it. Decorators stack: a decorator around
  a decorator calls the wrapped client with the flag forced twice, which reads as true.
\<close>

theorem noNsenterClient_delegates:
  "noNsenterClient_call c m ctx args s = client c m (WithForceNoNsenter ctx True) args s
   \<and> noNsenterClient_call \<lparr>client = noNsenterClient_call c\<rparr> m ctx args s
       = client c m (WithForceNoNsenter (WithForceNoNsenter ctx True) True) args s
   \<and> shouldForceNoNsenter (WithForceNoNsenter (WithForceNoNsenter ctx True) True) = True"
  by (cases m) (simp_all add: applyNoNsenter_def)

theorem noNsenterClient_delegates_witness:
  "probe_client VGCreate Background () 0 = (False, 1)
   \<and> noNsenterClient_call \<lparr>client = probe_client\<rparr> VGCreate Background () 0 = (True, 1)
   \<and> noNsenterClient_call \<lparr>client = noNsenterClient_call \<lparr>client = probe_client\<rparr>\<rparr>
        VGCreate Background () 0 = (True, 1)"
  using noNsenterClient_delegates [of "\<lparr>client = probe_client\<rparr>" VGCreate Background "()" 0]
  by (simp add: probe_client_def shouldForceNoNsenter_def WithForceNoNsenter_def
      forceNoNsenterKey_def)

section \<open>The environment of the command\<close>

text \<open>
  C5, as the claim states it, fails: the builder never reads the environment of its own
  process, it only appends to the descriptor's \<open>Env\<close>, which starts nil. With the custom
  variable \<^verbatim>\<open>FOO=bar\<close> on the context and \<^verbatim>\<open>PATH=/usr/bin\<close> in the environment of the
  process, the started program is handed \<^verbatim>\<open>FOO=bar\<close> alone.
\<close>

theorem custom_environment_replaces_inherited:
  "Cmd_Environ [''PATH=/usr/bin'']
     (fst (CommandContext host_process
             (WithCustomEnvironment Background (Some [(''FOO'', ''bar'')])) ''lvs'' []))
   = [''FOO=bar'']"
  by (simp add: Cmd_Environ_def Env_CommandContext UseStandardLocale_def host_process_def
      ctx_key_defs ctx_setter_defs ctx_getter_defs)

text \<open>
  C5, amended. The descriptor's environment vector is exactly the automatic entries (the
  default-volume-group variable when a default volume group is read from the context, then
  \<^verbatim>\<open>LC_ALL=C\<close> when the standard locale is enabled) followed by the custom entries. The
  program inherits the environment of the calling process only when that vector is empty;
  otherwise the vector is its whole environment. The custom entries come last, so for a
  key of the custom map (keys without \<^verbatim>\<open>=\<close>) the value the program sees is the custom one,
  also when an automatic entry has the same key.
\<close>

theorem CommandContext_environment:
  "Env (fst (CommandContext p ctx cmd args)) =
     (if DefaultVolumeGroup ctx \<noteq> '''' then [''LVM_VG_NAME='' @ DefaultVolumeGroup ctx] else [])
     @ (if UseStandardLocale p then [''LC_ALL=C''] else [])
     @ (case GetCustomEnvironment ctx of
          None \<Rightarrow> []
        | Some env \<Rightarrow> map (\<lambda>(k, v). k @ ''='' @ v) env)
   \<and> Cmd_Environ os_Environ (fst (CommandContext p ctx cmd args)) =
       (if Env (fst (CommandContext p ctx cmd args)) = [] then os_Environ
        else Env (fst (CommandContext p ctx cmd args)))
   \<and> (GetCustomEnvironment ctx = Some env \<and> distinct (map fst env)
        \<and> (\<forall>k' \<in> fst ` set env. CHR ''='' \<notin> set k') \<and> (k, v) \<in> set env
      \<longrightarrow> lookup_entry (Cmd_Environ os_Environ (fst (CommandContext p ctx cmd args))) k = Some v)"
proof (intro conjI impI)
  show env: "Env (fst (CommandContext p ctx cmd args)) =
     (if DefaultVolumeGroup ctx \<noteq> '''' then [''LVM_VG_NAME='' @ DefaultVolumeGroup ctx] else [])
     @ (if UseStandardLocale p then [''LC_ALL=C''] else [])
     @ (case GetCustomEnvironment ctx of
          None \<Rightarrow> []
        | Some env \<Rightarrow> map (\<lambda>(k, v). k @ ''='' @ v) env)"
    by (rule Env_CommandContext)
  show "Cmd_Environ os_Environ (fst (CommandContext p ctx cmd args)) =
       (if Env (fst (CommandContext p ctx cmd args)) = [] then os_Environ
        else Env (fst (CommandContext p ctx cmd args)))"
    by (simp add: Cmd_Environ_def)
  assume h: "GetCustomEnvironment ctx = Some env \<and> distinct (map fst env)
        \<and> (\<forall>k' \<in> fst ` set env. CHR ''='' \<notin> set k') \<and> (k, v) \<in> set env"
  then have custom: "lookup_entry (map (\<lambda>(k, v). k @ ''='' @ v) env) k = Some v"
    by (intro lookup_entry_present) auto
  from h have "env \<noteq> []" by auto
  with h env have "Env (fst (CommandContext p ctx cmd args)) \<noteq> []" by simp
  then have "Cmd_Environ os_Environ (fst (CommandContext p ctx cmd args))
      = Env (fst (CommandContext p ctx cmd args))"
    by (simp add: Cmd_Environ_def)
  also have "lookup_entry \<dots> k = Some v"
    using h custom by (simp only: env lookup_entry_append option.case)
  finally show "lookup_entry (Cmd_Environ os_Environ (fst (CommandContext p ctx cmd args))) k
      = Some v" .
qed

theorem CommandContext_environment_witness:
  "Env (fst (CommandContext (host_process\<lparr>useStandardLocale := True\<rparr>)
               (WithCustomEnvironment Background (Some [(''LC_ALL'', ''en_US.UTF-8'')]))
               ''lvs'' []))
     = [''LC_ALL=C'', ''LC_ALL=en_US.UTF-8'']
   \<and> lookup_entry
       (Cmd_Environ [''PATH=/usr/bin'']
          (fst (CommandContext (host_process\<lparr>useStandardLocale := True\<rparr>)
                  (WithCustomEnvironment Background (Some [(''LC_ALL'', ''en_US.UTF-8'')]))
                  ''lvs'' [])))
       ''LC_ALL'' = Some ''en_US.UTF-8''"
proof -
  let ?p = "host_process\<lparr>useStandardLocale := True\<rparr>"
  let ?ctx = "WithCustomEnvironment Background (Some [(''LC_ALL'', ''en_US.UTF-8'')])"
  note built = CommandContext_environment
    [of ?p ?ctx "''lvs''" "[]" "[''PATH=/usr/bin'']" "[(''LC_ALL'', ''en_US.UTF-8'')]"
        "''LC_ALL''" "''en_US.UTF-8''"]
  have custom: "GetCustomEnvironment ?ctx = Some [(''LC_ALL'', ''en_US.UTF-8'')]"
    by (simp add: getter_after_own_setter(3))
  have vg: "DefaultVolumeGroup ?ctx = ''''"
    by (simp add: setter_hides_other_fields(5))
  have std: "UseStandardLocale ?p"
    by (simp add: UseStandardLocale_def)
  have "Env (fst (CommandContext ?p ?ctx ''lvs'' [])) = [''LC_ALL=C'', ''LC_ALL=en_US.UTF-8'']"
    using built [THEN conjunct1] custom vg std by simp
  moreover have "lookup_entry
       (Cmd_Environ [''PATH=/usr/bin''] (fst (CommandContext ?p ?ctx ''lvs'' [])))
       ''LC_ALL'' = Some ''en_US.UTF-8''"
    using built [THEN conjunct2, THEN conjunct2] custom by simp
  ultimately show ?thesis by (rule conjI)
qed

section \<open>Validation and rendering of the vgreduce options\<close>

text \<open>
  C6. For every option list, with \<open>opts\<close> the options aggregated from it: when the
  volume group name of \<open>opts\<close> is empty, or when its physical volume names are empty and
  remove-missing is false, \<^verbatim>\<open>AsArgs\<close> returns a nil argument list and an error with a
  message that names what is missing; no field is rendered then, as the result is the same
  whatever the fields' rendering methods are. Otherwise the result is that of rendering
  the fields into a fresh generic list in the order remove-missing, volume group name,
  physical volume names, force, common options.
\<close>

theorem VGReduceOptionsList_AsArgs_validates_then_renders:
  "(VolumeGroupName (applyOptions list VGReduceOptions_zero) = '''' \<longrightarrow>
      VGReduceOptionsList_AsArgs M list =
        (None, Some (Error ''VolumeGroupName is required for extension of a volume group'')))
   \<and> (VolumeGroupName (applyOptions list VGReduceOptions_zero) \<noteq> ''''
        \<and> PhysicalVolumeNames (applyOptions list VGReduceOptions_zero) = []
        \<and> \<not> RemoveMissing (applyOptions list VGReduceOptions_zero) \<longrightarrow>
      VGReduceOptionsList_AsArgs M list =
        (None, Some (Error
           ''at least one PhysicalVolumeName is required for reduction of a volume group'')))
   \<and> (VolumeGroupName (applyOptions list VGReduceOptions_zero) = ''''
        \<or> (PhysicalVolumeNames (applyOptions list VGReduceOptions_zero) = []
            \<and> \<not> RemoveMissing (applyOptions list VGReduceOptions_zero)) \<longrightarrow>
      fst (VGReduceOptionsList_AsArgs M list) = None
      \<and> snd (VGReduceOptionsList_AsArgs M list) \<noteq> None
      \<and> VGReduceOptionsList_AsArgs M' list = VGReduceOptionsList_AsArgs M list)
   \<and> (VolumeGroupName (applyOptions list VGReduceOptions_zero) \<noteq> ''''
        \<and> (PhysicalVolumeNames (applyOptions list VGReduceOptions_zero) \<noteq> []
            \<or> RemoveMissing (applyOptions list VGReduceOptions_zero)) \<longrightarrow>
      VGReduceOptionsList_AsArgs M list =
        (case applyInOrder
                [RemoveMissing_ApplyToArgs M
                   (RemoveMissing (applyOptions list VGReduceOptions_zero)),
                 VolumeGroupName_ApplyToArgs M
                   (VolumeGroupName (applyOptions list VGReduceOptions_zero)),
                 PhysicalVolumeNames_ApplyToArgs M
                   (PhysicalVolumeNames (applyOptions list VGReduceOptions_zero)),
                 Force_ApplyToArgs M (Force (applyOptions list VGReduceOptions_zero)),
                 CommonOptions_ApplyToArgs M
                   (CommonOptions (applyOptions list VGReduceOptions_zero))]
                (NewArgs ArgsTypeGeneric) of
           (args', Some err) \<Rightarrow> (None, Some err)
         | (args', None) \<Rightarrow> (Some args', None)))"
  by (simp add: VGReduceOptionsList_AsArgs_def VGReduceOptions_ApplyToArgs_def Let_def)

text \<open>
  The empty list has no volume group name; a list that names the volume group alone has
  no physical volume; a list with both is rendered, here by the stand-in methods, in
  the order of the fields.
\<close>

theorem VGReduceOptionsList_AsArgs_validates_then_renders_witness:
  "VGReduceOptionsList_AsArgs example_methods [] =
     (None, Some (Error ''VolumeGroupName is required for extension of a volume group''))
   \<and> VGReduceOptionsList_AsArgs example_methods
        [OptionsStruct (VGReduceOptions_zero\<lparr>VolumeGroupName := ''vg0''\<rparr>)] =
     (None, Some (Error
        ''at least one PhysicalVolumeName is required for reduction of a volume group''))
   \<and> VGReduceOptionsList_AsArgs example_methods
        [OptionsStruct (example_options\<lparr>RemoveMissing := True\<rparr>)] =
     (Some \<lparr>argsType = ArgsTypeGeneric,
            raw = [''--removemissing'', ''vg0'', ''/dev/sda'', ''--force'', ''--yes'']\<rparr>, None)"
proof -
  have "VGReduceOptionsList_AsArgs example_methods [] =
     (None, Some (Error ''VolumeGroupName is required for extension of a volume group''))"
    using VGReduceOptionsList_AsArgs_validates_then_renders [of "[]" example_methods]
    by (simp add: VGReduceOptions_zero_def)
  moreover have "VGReduceOptionsList_AsArgs example_methods
        [OptionsStruct (VGReduceOptions_zero\<lparr>VolumeGroupName := ''vg0''\<rparr>)] =
     (None, Some (Error
        ''at least one PhysicalVolumeName is required for reduction of a volume group''))"
    using VGReduceOptionsList_AsArgs_validates_then_renders
      [of "[OptionsStruct (VGReduceOptions_zero\<lparr>VolumeGroupName := ''vg0''\<rparr>)]" example_methods]
    by (simp add: VGReduceOptions_zero_def VGReduceOptions_ApplyToVGReduceOptions_def)
  moreover have "VGReduceOptionsList_AsArgs example_methods
        [OptionsStruct (example_options\<lparr>RemoveMissing := True\<rparr>)] =
     (Some \<lparr>argsType = ArgsTypeGeneric,
            raw = [''--removemissing'', ''vg0'', ''/dev/sda'', ''--force'', ''--yes'']\<rparr>, None)"
    using VGReduceOptionsList_AsArgs_validates_then_renders
      [of "[OptionsStruct (example_options\<lparr>RemoveMissing := True\<rparr>)]" example_methods]
    by (simp add: VGReduceOptions_zero_def VGReduceOptions_ApplyToVGReduceOptions_def
        example_options_def example_methods_def CommonOptions_ApplyToArgs_def
        Verbose_ApplyToArgs_def RequestConfirm_ApplyToArgs_def AddOrReplace_def NewArgs_def)
  ultimately show ?thesis by blast
qed

section \<open>Aggregation of the option list\<close>



section \<open>Confirmation is suppressed by default\<close>

text \<open>
  C9. When \<^verbatim>\<open>RequestConfirm\<close> is false, its zero value, \<^verbatim>\<open>ApplyToArgs\<close> adds the flag
  \<^verbatim>\<open>--yes\<close> to the argument list (add-or-replace, so the flag is in the list afterwards);
  when it is true the list is left as it is. Neither case fails. The options aggregated
  from a list start from the zero value, so unless an option sets \<^verbatim>\<open>RequestConfirm\<close>,
  every list that \<^verbatim>\<open>CommonOptions\<close> or the vgreduce options render without error has
  \<^verbatim>\<open>--yes\<close> in it.
\<close>

theorem RequestConfirm_adds_yes_unless_requested:
  "RequestConfirm_ApplyToArgs False args = (AddOrReplace ''--yes'' args, None)
   \<and> ''--yes'' \<in> set (GetRaw (fst (RequestConfirm_ApplyToArgs False args)))
   \<and> RequestConfirm_ApplyToArgs True args = (args, None)
   \<and> RequestConfirm (CommonOptions VGReduceOptions_zero) = False
   \<and> (CommonOptions_ApplyToArgs M opts args = (args', None) \<and> \<not> RequestConfirm opts
        \<longrightarrow> ''--yes'' \<in> set (GetRaw args'))
   \<and> (VGReduceOptionsList_AsArgs M list = (Some args'', None)
        \<and> \<not> RequestConfirm (CommonOptions (applyOptions list VGReduceOptions_zero))
        \<longrightarrow> ''--yes'' \<in> set (GetRaw args''))"
proof (intro conjI impI)
  show "RequestConfirm_ApplyToArgs False args = (AddOrReplace ''--yes'' args, None)"
    by (simp add: RequestConfirm_ApplyToArgs_def)
  show "''--yes'' \<in> set (GetRaw (fst (RequestConfirm_ApplyToArgs False args)))"
    by (simp add: RequestConfirm_ApplyToArgs_def GetRaw_def yes_in_AddOrReplace)
  show "RequestConfirm_ApplyToArgs True args = (args, None)"
    by (simp add: RequestConfirm_ApplyToArgs_def)
  show "RequestConfirm (CommonOptions VGReduceOptions_zero) = False"
    by (simp add: VGReduceOptions_zero_def)
next
  assume "CommonOptions_ApplyToArgs M opts args = (args', None) \<and> \<not> RequestConfirm opts"
  then have "''--yes'' \<in> set (raw args')"
    by (blast intro: CommonOptions_success_has_yes)
  then show "''--yes'' \<in> set (GetRaw args')"
    by (simp add: GetRaw_def)
next
  assume h: "VGReduceOptionsList_AsArgs M list = (Some args'', None)
        \<and> \<not> RequestConfirm (CommonOptions (applyOptions list VGReduceOptions_zero))"
  then have "VGReduceOptions_ApplyToArgs M (applyOptions list VGReduceOptions_zero)
                (NewArgs ArgsTypeGeneric) = (args'', None)"
    by (auto simp: VGReduceOptionsList_AsArgs_def Let_def split: prod.splits option.splits)
  with h have "''--yes'' \<in> set (raw args'')"
    by (blast intro: VGReduceOptions_success_has_yes)
  then show "''--yes'' \<in> set (GetRaw args'')"
    by (simp add: GetRaw_def)
qed

theorem RequestConfirm_adds_yes_unless_requested_witness:
  "RequestConfirm_ApplyToArgs False (NewArgs ArgsTypeGeneric)
     = (\<lparr>argsType = ArgsTypeGeneric, raw = [''--yes'']\<rparr>, None)
   \<and> RequestConfirm_ApplyToArgs True (NewArgs ArgsTypeGeneric)
     = (\<lparr>argsType = ArgsTypeGeneric, raw = []\<rparr>, None)
   \<and> CommonOptions_ApplyToArgs example_methods (CommonOptions example_options)
        (NewArgs ArgsTypeGeneric) = (\<lparr>argsType = ArgsTypeGeneric, raw = [''--yes'']\<rparr>, None)
   \<and> ''--yes'' \<in> set (GetRaw \<lparr>argsType = ArgsTypeGeneric, raw = [''--yes'']\<rparr>)
   \<and> VGReduceOptionsList_AsArgs example_methods [OptionsStruct example_options]
       = (Some \<lparr>argsType = ArgsTypeGeneric,
                raw = [''vg0'', ''/dev/sda'', ''--force'', ''--yes'']\<rparr>, None)
   \<and> ''--yes'' \<in> set (GetRaw \<lparr>argsType = ArgsTypeGeneric,
                                raw = [''vg0'', ''/dev/sda'', ''--force'', ''--yes'']\<rparr>)"
proof -
  let ?fresh = "NewArgs ArgsTypeGeneric"
  let ?yes = "\<lparr>argsType = ArgsTypeGeneric, raw = [''--yes'']\<rparr>"
  let ?all = "\<lparr>argsType = ArgsTypeGeneric, raw = [''vg0'', ''/dev/sda'', ''--force'', ''--yes'']\<rparr>"
  note fact = RequestConfirm_adds_yes_unless_requested
    [of ?fresh example_methods "CommonOptions example_options" ?yes
        "[OptionsStruct example_options]" ?all]
  have common: "CommonOptions_ApplyToArgs example_methods (CommonOptions example_options) ?fresh
      = (?yes, None)"
    by (simp add: VGReduceOptions_zero_def example_options_def example_methods_def
        CommonOptions_ApplyToArgs_def Verbose_ApplyToArgs_def RequestConfirm_ApplyToArgs_def
        AddOrReplace_def NewArgs_def)
  have unasked: "\<not> RequestConfirm (CommonOptions example_options)"
    by (simp add: VGReduceOptions_zero_def example_options_def)
  have rendered: "VGReduceOptionsList_AsArgs example_methods [OptionsStruct example_options]
      = (Some ?all, None)"
    by (simp add: VGReduceOptionsList_AsArgs_def VGReduceOptions_ApplyToArgs_def Let_def
        VGReduceOptions_ApplyToVGReduceOptions_def
        VGReduceOptions_zero_def example_options_def example_methods_def
        CommonOptions_ApplyToArgs_def Verbose_ApplyToArgs_def RequestConfirm_ApplyToArgs_def
        AddOrReplace_def NewArgs_def)
  have unasked': "\<not> RequestConfirm (CommonOptions
      (applyOptions [OptionsStruct example_options] VGReduceOptions_zero))"
    by (simp add: VGReduceOptions_ApplyToVGReduceOptions_def VGReduceOptions_zero_def
        example_options_def)
  have "RequestConfirm_ApplyToArgs False ?fresh = (?yes, None)"
    using fact [THEN conjunct1] by (simp add: AddOrReplace_def NewArgs_def)
  moreover have "RequestConfirm_ApplyToArgs True ?fresh
      = (\<lparr>argsType = ArgsTypeGeneric, raw = []\<rparr>, None)"
    using fact [THEN conjunct2, THEN conjunct2, THEN conjunct1] by (simp add: NewArgs_def)
  moreover have "''--yes'' \<in> set (GetRaw ?yes)"
    using fact [THEN conjunct2, THEN conjunct2, THEN conjunct2, THEN conjunct2, THEN conjunct1]
      common unasked by blast
  moreover have "''--yes'' \<in> set (GetRaw ?all)"
    using fact [THEN conjunct2, THEN conjunct2, THEN conjunct2, THEN conjunct2, THEN conjunct2]
      rendered unasked' by blast
  ultimately show ?thesis using common rendered by blast
qed

section \<open>The profile of the common options\<close>

text \<open>
  C10. For every value of \<^verbatim>\<open>CommonOptions\<close>, \<^verbatim>\<open>ApplyToArgs\<close> applies the devices, the
  devices file, verbose and request-confirm, in that order, and nothing else: the result
  is the same whatever the profile is, so a profile set through the common options leaves
  no trace in what is rendered, for the common options alone and for the vgreduce options
  that embed them.
\<close>

theorem CommonOptions_ApplyToArgs_ignores_Profile:
  "CommonOptions_ApplyToArgs M opts args =
     applyInOrder
       [Devices_ApplyToArgs M (Devices opts), DevicesFile_ApplyToArgs M (DevicesFile opts),
        Verbose_ApplyToArgs (Verbose opts), RequestConfirm_ApplyToArgs (RequestConfirm opts)]
       args
   \<and> CommonOptions_ApplyToArgs M (opts\<lparr>Profile := profile\<rparr>) args
       = CommonOptions_ApplyToArgs M opts args
   \<and> VGReduceOptionsList_AsArgs M
       (list @ [OptionsStruct (B\<lparr>CommonOptions := (CommonOptions B)\<lparr>Profile := profile\<rparr>\<rparr>)])
       = VGReduceOptionsList_AsArgs M (list @ [OptionsStruct B])"
  by (simp add: CommonOptions_ApplyToArgs_def VGReduceOptionsList_AsArgs_def Let_def
      applyOptions_append VGReduceOptions_ApplyToVGReduceOptions_def
      VGReduceOptions_ApplyToArgs_def)

theorem CommonOptions_ApplyToArgs_ignores_Profile_witness:
  "CommonOptions_ApplyToArgs example_methods
     ((CommonOptions example_options)\<lparr>Profile := ''thin-performance''\<rparr>)
     (NewArgs ArgsTypeGeneric)
   = (\<lparr>argsType = ArgsTypeGeneric, raw = [''--yes'']\<rparr>, None)
   \<and> VGReduceOptionsList_AsArgs example_methods
       [OptionsStruct (example_options
          \<lparr>CommonOptions := (CommonOptions example_options)\<lparr>Profile := ''thin-performance''\<rparr>\<rparr>)]
     = (Some \<lparr>argsType = ArgsTypeGeneric,
              raw = [''vg0'', ''/dev/sda'', ''--force'', ''--yes'']\<rparr>, None)"
proof -
  note fact = CommonOptions_ApplyToArgs_ignores_Profile
    [of example_methods "CommonOptions example_options" "NewArgs ArgsTypeGeneric"
        "''thin-performance''" "[]" example_options]
  have "CommonOptions_ApplyToArgs example_methods (CommonOptions example_options)
          (NewArgs ArgsTypeGeneric) = (\<lparr>argsType = ArgsTypeGeneric, raw = [''--yes'']\<rparr>, None)"
    by (simp add: VGReduceOptions_zero_def example_options_def example_methods_def
        CommonOptions_ApplyToArgs_def Verbose_ApplyToArgs_def RequestConfirm_ApplyToArgs_def
        AddOrReplace_def NewArgs_def)
  moreover have "VGReduceOptionsList_AsArgs example_methods ([] @ [OptionsStruct example_options])
      = (Some \<lparr>argsType = ArgsTypeGeneric,
               raw = [''vg0'', ''/dev/sda'', ''--force'', ''--yes'']\<rparr>, None)"
    by (simp add: VGReduceOptionsList_AsArgs_def VGReduceOptions_ApplyToArgs_def Let_def
        VGReduceOptions_ApplyToVGReduceOptions_def
        VGReduceOptions_zero_def example_options_def example_methods_def
        CommonOptions_ApplyToArgs_def Verbose_ApplyToArgs_def RequestConfirm_ApplyToArgs_def
        AddOrReplace_def NewArgs_def)
  ultimately show ?thesis
    using fact [THEN conjunct2, THEN conjunct1] fact [THEN conjunct2, THEN conjunct2]
    by (simp only: append_Nil)
qed

end
